theory Spec2Isabelle
  imports Main "HOL-Library.Word"
begin

section \<open>Shared Go notions\<close>

text \<open>
  A Go \<open>error\<close> value. \<open>io_EOF\<close> is the sentinel \<open>io.EOF\<close> itself; every other error
  is \<open>GoError w m\<close>, where \<open>m\<close> is what its \<open>Error()\<close> method returns and \<open>w\<close> says
  whether \<open>io.EOF\<close> is in its \<open>Unwrap\<close> chain. A \<open>nil\<close> error is \<open>None\<close> of
  \<open>go_error option\<close>.
\<close>

datatype go_error = io_EOF | GoError bool string

fun Error :: "go_error \<Rightarrow> string" where
  "Error io_EOF = ''EOF''"
| "Error (GoError w m) = m"

text \<open>\<open>errors.Is(err, io.EOF)\<close>; the comparison \<open>err == io.EOF\<close> is \<open>e = io_EOF\<close>.\<close>

fun errors_Is_EOF :: "go_error \<Rightarrow> bool" where
  "errors_Is_EOF io_EOF = True"
| "errors_Is_EOF (GoError w m) = w"

text \<open>
  \<open>fmt.Errorf(prefix + "%w\n", err)\<close> for a literal prefix without verbs: the new error
  wraps \<open>err\<close> and its text is the prefix, the text of \<open>err\<close> and a newline.
\<close>

definition Errorf_w :: "string \<Rightarrow> go_error \<Rightarrow> go_error" where
  "Errorf_w prefix err = GoError (errors_Is_EOF err) (prefix @ Error err @ [CHR 0x0A])"

text \<open>
  What one call of a blocking, fallible operation gives back to the code that made it:
  it returns a value, or it never returns, or the goroutine panics.
\<close>

datatype 'a outcome = Returned 'a | Blocked | Panicked

text \<open>The result of one \<open>Recv()\<close> on a gRPC stream: a message, or an error.\<close>

datatype 'a recv = Recv_ok 'a | Recv_err go_error

text \<open>
  Calls on the collaborators that are outside the source files are recorded, not
  interpreted: the operands of a formatted log call, and the calls themselves.
\<close>

datatype operand = IntArg int | StrArg string | ErrArg go_error

type_synonym Resource = nat

datatype action =
    CloseCall Resource
  | Logf string "operand list"
  | Printf string "operand list"
  | SetUpLogging
  | Supervise string "string list"
  | SupervisorRun
  | SendAndClose

section \<open>The daemon service (pkg/daemon/service.go)\<close>

text \<open>
  \<open>service\<close> keeps the fields the RPC handlers read or write. \<open>network\<close> is the
  override reference (\<open>edgectl.Resource\<close>, an interface value): \<open>None\<close> is \<open>nil\<close>.
  The handles \<open>grpc\<close>, \<open>hClient\<close> and \<open>p\<close> are only used to reach the collaborators
  whose calls are recorded as actions.
\<close>

record service =
  network :: "Resource option"
  dns :: string
  fallback :: string

text \<open>
  What the collaborators answer during one handler call: \<open>IsOkay\<close> and \<open>Close\<close> are
  the answers of the override held in \<open>network\<close>, \<open>SocketExists\<close> is
  \<open>edgectl.SocketExists(edgectl.ConnectorSocketName)\<close>, and \<open>install\<close> is what the
  external installer behind \<open>makeNetOverride\<close> produces.
\<close>

record env =
  IsOkay :: bool
  Close :: "go_error option"
  SocketExists :: bool
  install :: "go_error + Resource"

text \<open>
  The response enums of package \<open>rpc\<close> (generated code, not among the source files):
  the constants the handlers assign, and the zero value a fresh response holds.
\<close>

datatype DaemonStatusResponse_ErrorType =
  DaemonStatusResponse_Unspecified | DaemonStatusResponse_Paused | DaemonStatusResponse_NoNetwork

datatype PauseResponse_ErrorType =
  PauseResponse_Unspecified | PauseResponse_AlreadyPaused | PauseResponse_ConnectedToCluster
  | PauseResponse_UnexpectedPauseError

datatype ResumeResponse_ErrorType =
  ResumeResponse_Unspecified | ResumeResponse_NotPaused | ResumeResponse_ReEstablishing
  | ResumeResponse_UnexpectedResumeError

datatype DaemonStatusResponse = DaemonStatusResponse (status_Error: DaemonStatusResponse_ErrorType)

datatype PauseResponse =
  PauseResponse (pause_Error: PauseResponse_ErrorType) (pause_ErrorText: string)

datatype ResumeResponse =
  ResumeResponse (resume_Error: ResumeResponse_ErrorType) (resume_ErrorText: string)

text \<open>\<open>Status\<close> returns the response and the RPC error; it assigns no field of \<open>d\<close>.\<close>

definition Status :: "service \<Rightarrow> env \<Rightarrow> DaemonStatusResponse \<times> go_error option" where
  "Status d e =
     (if network d = None then (DaemonStatusResponse DaemonStatusResponse_Paused, None)
      else if \<not> IsOkay e then (DaemonStatusResponse DaemonStatusResponse_NoNetwork, None)
      else (DaemonStatusResponse DaemonStatusResponse_Unspecified, None))"

text \<open>
  \<open>Pause\<close>: the \<open>switch\<close> tests its cases in order. The result is the response with
  the RPC error, the service afterwards, and the calls made on the collaborators.
\<close>

definition Pause ::
  "service \<Rightarrow> env \<Rightarrow> (PauseResponse \<times> go_error option) \<times> service \<times> action list" where
  "Pause d e =
     (case network d of
        None \<Rightarrow> ((PauseResponse PauseResponse_AlreadyPaused [], None), d, [])
      | Some n \<Rightarrow>
          if SocketExists e
          then ((PauseResponse PauseResponse_ConnectedToCluster [], None), d, [])
          else (case Close e of
                  Some err \<Rightarrow>
                    ((PauseResponse PauseResponse_UnexpectedPauseError (Error err), None),
                     d\<lparr>network := None\<rparr>,
                     [CloseCall n, Logf ''pause: %v'' [ErrArg err]])
                | None \<Rightarrow>
                    ((PauseResponse PauseResponse_Unspecified [], None),
                     d\<lparr>network := None\<rparr>,
                     [CloseCall n])))"

text \<open>
  Modelled from the spec: \<open>makeNetOverride\<close> is a method of \<open>service\<close> that is not
  among the source files. The spec says of \<open>Resume\<close> with a nil override that it
  "installs a new one; failure returns \<open>UnexpectedResumeError\<close> with error text and is
  logged; override remains nil on failure", and of the override that it is "created by
  an external installer when the daemon starts or on \<open>Resume\<close>". So the method returns
  the installer's error and leaves \<open>network\<close> alone, or stores the new override.
\<close>

definition makeNetOverride :: "service \<Rightarrow> env \<Rightarrow> go_error option \<times> service" where
  "makeNetOverride d e =
     (case install e of
        Inl err \<Rightarrow> (Some err, d)
      | Inr r \<Rightarrow> (None, d\<lparr>network := Some r\<rparr>))"

definition Resume ::
  "service \<Rightarrow> env \<Rightarrow> (ResumeResponse \<times> go_error option) \<times> service \<times> action list" where
  "Resume d e =
     (if network d \<noteq> None
      then (if IsOkay e
            then ((ResumeResponse ResumeResponse_NotPaused [], None), d, [])
            else ((ResumeResponse ResumeResponse_ReEstablishing [], None), d, []))
      else (case makeNetOverride d e of
              (Some err, d') \<Rightarrow>
                ((ResumeResponse ResumeResponse_UnexpectedResumeError (Error err), None),
                 d', [Logf ''resume: %v'' [ErrArg err]])
            | (None, d') \<Rightarrow>
                ((ResumeResponse ResumeResponse_Unspecified [], None), d', [])))"

text \<open>
  \<open>Run\<close>. What the process and the libraries answer: the effective user id, the
  version text, the process id, and the errors \<open>sup.Run()\<close> returns. The workers
  (\<open>runGRPCService\<close>, which binds the socket, and the initial \<open>makeNetOverride\<close>)
  run only inside \<open>sup.Run()\<close>, recorded as \<open>SupervisorRun\<close>.
\<close>

record run_env =
  Geteuid :: int
  DisplayVersion :: string
  Getpid :: int
  runErrors :: "go_error list"

definition Run :: "string \<Rightarrow> string \<Rightarrow> run_env \<Rightarrow> go_error option \<times> action list" where
  "Run dns_arg fallback_arg e =
     (if Geteuid e \<noteq> 0
      then (Some (GoError False ''edgectl daemon must run as root''), [])
      else (Some (GoError False ''edgectl daemon has exited''),
            [SetUpLogging,
             Supervise ''daemon'' [],
             Supervise ''setup'' [''daemon''],
             Printf ''---'' [],
             Printf ''Edge Control daemon %s starting...'' [StrArg (DisplayVersion e)],
             Printf ''PID is %d'' [IntArg (Getpid e)],
             SupervisorRun,
             Printf [] []]
            @ (if length (runErrors e) > 0
               then Printf ''daemon has exited with %d error(s):''
                      [IntArg (int (length (runErrors e)))]
                    # map (\<lambda>err. Printf ''- %v'' [ErrArg err]) (runErrors e)
               else [])
            @ [Printf ''Edge Control daemon %s is done.'' [StrArg (DisplayVersion e)]]))"

text \<open>
  \<open>Logger\<close>. The stream is the list of what the successive \<open>server.Recv()\<close> calls
  return; after the last entry \<open>Recv\<close> never returns. \<open>ack\<close> is what
  \<open>server.SendAndClose\<close> returns. Each message is passed to \<open>lg.Printf\<close> as its
  first argument, with no operands.
\<close>

datatype LogMessage = LogMessage (Text: string)

fun Logger ::
  "go_error option \<Rightarrow> LogMessage recv list \<Rightarrow> go_error option outcome \<times> action list" where
  "Logger ack [] = (Blocked, [])"
| "Logger ack (Recv_err err # rest) =
     (if err = io_EOF then (Returned ack, [SendAndClose])
      else (Returned (Some err), []))"
| "Logger ack (Recv_ok msg # rest) =
     (case Logger ack rest of (out, acts) \<Rightarrow> (out, Printf (Text msg) [] # acts))"

section \<open>The output pump of a remote command (pkg/client/cli/command_remote.go)\<close>

text \<open>
  The response frames of package \<open>connector\<close> (generated code, not among the source
  files), with the fields the pump reads: a frame has a \<open>Data\<close> pointer, which may be
  nil, and the \<open>Final\<close> flag.
\<close>

datatype Result = Result (Data: "8 word list") (ErrorCategory: "32 word")

datatype StreamResult = StreamResult (sr_Data: "Result option") (Final: bool)

datatype writer = stdout | stderr

datatype pump_action =
    RecvCall
  | WriteCall writer "8 word list"
  | CloseSend

text \<open>
  What the pump returns: \<open>nil\<close>, the error derived from the result \<open>r\<close> of a
  final frame, or an error the pump built itself.
\<close>

datatype session_error = no_error | result_error Result | go_err go_error

text \<open>
  Modelled from the spec: \<open>errcat.FromResult\<close> is not among the source files. The
  spec says that the output pump, "on receiving the terminal frame, derives a final
  error from the structured result (if present and non-empty)", that a final frame
  "carrying a non-empty structured result must yield a session error derived from that
  result", and that a final frame "with empty result must yield a nil session error".
  A result is empty when it holds no bytes and the zero error category, which is the
  zero value of the message. The pump itself tests whether the result is present.
\<close>

definition empty_result :: "Result \<Rightarrow> bool" where
  "empty_result r = (Data r = [] \<and> ErrorCategory r = 0)"

definition FromResult :: "Result \<Rightarrow> session_error" where
  "FromResult r = (if empty_result r then no_error else result_error r)"

text \<open>
  One turn of the loop as the pump sees it. The context is canceled by other
  goroutines; a flag says that the cancellation arrived in the named interval, and
  once canceled the context stays so. \<open>Recv\<close> is what \<open>cmdStream.Recv()\<close> returns
  and \<open>Write\<close> the error of \<open>w.Write\<close>, if the turn gets there.
\<close>

record turn =
  cancel_before :: bool
  Recv :: "StreamResult recv"
  cancel_during_Recv :: bool
  Write :: "go_error option"
  cancel_during_Write :: bool

definition target :: "Result \<Rightarrow> writer" where
  "target r = (if ErrorCategory r = 0 then stdout else stderr)"

text \<open>
  The \<open>for ctx.Err() == nil\<close> loop; \<open>ctx_done\<close> is whether the context was canceled
  when the previous turn ended. With no turn left and the context alive, \<open>Recv\<close>
  never returns.
\<close>

fun pump_loop :: "bool \<Rightarrow> turn list \<Rightarrow> session_error outcome \<times> pump_action list" where
  "pump_loop ctx_done [] =
     (if ctx_done then (Returned no_error, []) else (Blocked, [RecvCall]))"
| "pump_loop ctx_done (t # ts) =
     (if ctx_done \<or> cancel_before t then (Returned no_error, [])
      else (case Recv t of
              Recv_err err \<Rightarrow>
                (if errors_Is_EOF err \<or> cancel_during_Recv t
                 then (Returned no_error, [RecvCall])
                 else (Returned (go_err (Errorf_w ''failed to read stdout/stderr stream: '' err)),
                       [RecvCall]))
            | Recv_ok sr \<Rightarrow>
                (if Final sr
                 then (case sr_Data sr of
                         Some r \<Rightarrow> (Returned (FromResult r), [RecvCall])
                       | None \<Rightarrow> (Returned no_error, [RecvCall]))
                 else (case sr_Data sr of
                         None \<Rightarrow> (Panicked, [RecvCall])
                       | Some r \<Rightarrow>
                           (case Write t of
                              Some werr \<Rightarrow>
                                (if cancel_during_Recv t \<or> cancel_during_Write t
                                 then (Returned no_error,
                                       [RecvCall, WriteCall (target r) (Data r)])
                                 else (Returned (go_err
                                         (Errorf_w ''failed to write stdout/stderr: '' werr)),
                                       [RecvCall, WriteCall (target r) (Data r)]))
                            | None \<Rightarrow>
                                (case pump_loop (cancel_during_Recv t \<or> cancel_during_Write t) ts of
                                   (out, acts) \<Rightarrow>
                                     (out, RecvCall # WriteCall (target r) (Data r) # acts)))))))"

text \<open>
  \<open>stdoutAndStderrPump\<close>: the loop, then the deferred \<open>cmdStream.CloseSend()\<close>, which
  runs when the function returns or panics.
\<close>

definition stdoutAndStderrPump :: "turn list \<Rightarrow> session_error outcome \<times> pump_action list" where
  "stdoutAndStderrPump ts =
     (case pump_loop False ts of
        (out, acts) \<Rightarrow> (out, if out = Blocked then acts else acts @ [CloseSend]))"

text \<open>
  The turn in which the data frame \<open>r\<close> arrives while the context is alive and its
  bytes are written without error.
\<close>

definition data_turn :: "Result \<Rightarrow> turn" where
  "data_turn r =
     \<lparr>cancel_before = False, Recv = Recv_ok (StreamResult (Some r) False),
      cancel_during_Recv = False, Write = None, cancel_during_Write = False\<rparr>"

text \<open>
  For reading a run: the write calls among the calls made, and the write a received
  frame asks for (none for an error, a final frame, or a frame without data).
\<close>

fun is_WriteCall :: "pump_action \<Rightarrow> bool" where
  "is_WriteCall (WriteCall w bs) = True"
| "is_WriteCall RecvCall = False"
| "is_WriteCall CloseSend = False"

definition frame_writes :: "turn \<Rightarrow> pump_action list" where
  "frame_writes t =
     (case Recv t of
        Recv_err err \<Rightarrow> []
      | Recv_ok sr \<Rightarrow>
          (if Final sr then []
           else (case sr_Data sr of
                   None \<Rightarrow> []
                 | Some r \<Rightarrow>
                     [WriteCall (if ErrorCategory r = 0 then stdout else stderr) (Data r)])))"

section \<open>The other two pumps of a remote command (pkg/client/cli/command_remote.go)\<close>

subsection \<open>interruptPump\<close>






subsection \<open>stdinPump\<close>





section \<open>Properties of the daemon service\<close>

subsection \<open>Status\<close>

text \<open>
  C2. \<open>Status\<close> never returns an RPC error, and its response is a function of the
  override reference and of what the override answers at this very call: \<open>Paused\<close>
  exactly when the reference is nil, \<open>NoNetwork\<close> exactly when it is non-nil and
  \<open>IsOkay\<close> reports false, and the zero value (healthy) exactly when it is non-nil and
  okay. This holds in every state of the service, so in every reachable one; the
  handler keeps nothing from one call to the next, since it assigns no field.
\<close>

theorem Status_derived:
  "snd (Status d e) = None \<and>
   (status_Error (fst (Status d e)) = DaemonStatusResponse_Paused \<longleftrightarrow> network d = None) \<and>
   (status_Error (fst (Status d e)) = DaemonStatusResponse_NoNetwork \<longleftrightarrow>
      network d \<noteq> None \<and> \<not> IsOkay e) \<and>
   (status_Error (fst (Status d e)) = DaemonStatusResponse_Unspecified \<longleftrightarrow>
      network d \<noteq> None \<and> IsOkay e)"
  by (simp add: Status_def)

text \<open>A paused daemon, one whose override is not okay, and a healthy one.\<close>

theorem Status_derived_witness:
  "Status \<lparr>network = None, dns = [], fallback = []\<rparr>
          \<lparr>IsOkay = True, Close = None, SocketExists = False, install = Inr 1\<rparr> =
     (DaemonStatusResponse DaemonStatusResponse_Paused, None) \<and>
   Status \<lparr>network = Some 7, dns = [], fallback = []\<rparr>
          \<lparr>IsOkay = False, Close = None, SocketExists = False, install = Inr 1\<rparr> =
     (DaemonStatusResponse DaemonStatusResponse_NoNetwork, None) \<and>
   Status \<lparr>network = Some 7, dns = [], fallback = []\<rparr>
          \<lparr>IsOkay = True, Close = None, SocketExists = False, install = Inr 1\<rparr> =
     (DaemonStatusResponse DaemonStatusResponse_Unspecified, None)"
  using Status_derived [of "\<lparr>network = None, dns = [], fallback = []\<rparr>"
      "\<lparr>IsOkay = True, Close = None, SocketExists = False, install = Inr 1\<rparr>"]
    Status_derived [of "\<lparr>network = Some 7, dns = [], fallback = []\<rparr>"
      "\<lparr>IsOkay = False, Close = None, SocketExists = False, install = Inr 1\<rparr>"]
    Status_derived [of "\<lparr>network = Some 7, dns = [], fallback = []\<rparr>"
      "\<lparr>IsOkay = True, Close = None, SocketExists = False, install = Inr 1\<rparr>"]
  by (simp add: prod_eq_iff DaemonStatusResponse.expand)

subsection \<open>Pause\<close>

text \<open>
  C10. With a nil override \<open>Pause\<close> answers \<open>AlreadyPaused\<close> whatever
  \<open>SocketExists\<close> reports, because the nil test is the first case of the \<open>switch\<close>;
  the service is returned as it was and no collaborator is called.
\<close>

theorem Pause_nil_override:
  assumes "network d = None"
  shows "Pause d e = ((PauseResponse PauseResponse_AlreadyPaused [], None), d, [])"
  using assms by (simp add: Pause_def)

text \<open>The same at a state where the connector socket exists.\<close>

theorem Pause_nil_override_witness:
  "network \<lparr>network = None, dns = [], fallback = []\<rparr> = None \<and>
   SocketExists \<lparr>IsOkay = False, Close = None, SocketExists = True, install = Inr 0\<rparr> \<and>
   Pause \<lparr>network = None, dns = [], fallback = []\<rparr>
         \<lparr>IsOkay = False, Close = None, SocketExists = True, install = Inr 0\<rparr> =
     ((PauseResponse PauseResponse_AlreadyPaused [], None),
      \<lparr>network = None, dns = [], fallback = []\<rparr>, [])"
  using Pause_nil_override [of "\<lparr>network = None, dns = [], fallback = []\<rparr>"
      "\<lparr>IsOkay = False, Close = None, SocketExists = True, install = Inr 0\<rparr>"]
  by simp

text \<open>
  C1 as written asks for \<open>ConnectedToCluster\<close> whenever the socket exists, whatever
  the override. With a nil override and the socket present the answer is
  \<open>AlreadyPaused\<close>.
\<close>

theorem Pause_socket_nil_counterexample:
  "pause_Error (fst (fst (Pause \<lparr>network = None, dns = [], fallback = []\<rparr>
       \<lparr>IsOkay = False, Close = None, SocketExists = True, install = Inr 0\<rparr>)))
     \<noteq> PauseResponse_ConnectedToCluster"
  by (simp add: Pause_def)

text \<open>
  C1, amended. When the connector socket exists, \<open>Pause\<close> leaves the override
  reference as it was and calls nothing on the override; it answers
  \<open>ConnectedToCluster\<close> when the override is non-nil and \<open>AlreadyPaused\<close> when it is
  nil.
\<close>

theorem Pause_socket_exists:
  assumes "SocketExists e"
  shows "Pause d e =
           ((PauseResponse (if network d = None then PauseResponse_AlreadyPaused
                            else PauseResponse_ConnectedToCluster) [], None), d, [])"
  using assms by (simp add: Pause_def split: option.splits)

theorem Pause_socket_exists_witness:
  "SocketExists \<lparr>IsOkay = True, Close = None, SocketExists = True, install = Inr 1\<rparr> \<and>
   Pause \<lparr>network = Some 7, dns = ''1.1.1.1'', fallback = []\<rparr>
         \<lparr>IsOkay = True, Close = None, SocketExists = True, install = Inr 1\<rparr> =
     ((PauseResponse PauseResponse_ConnectedToCluster [], None),
      \<lparr>network = Some 7, dns = ''1.1.1.1'', fallback = []\<rparr>, [])"
  using Pause_socket_exists [of "\<lparr>IsOkay = True, Close = None, SocketExists = True, install = Inr 1\<rparr>"
      "\<lparr>network = Some 7, dns = ''1.1.1.1'', fallback = []\<rparr>"]
  by simp

text \<open>
  C3. With a non-nil override \<open>n\<close> and no connector socket, \<open>Pause\<close> calls \<open>Close\<close>
  on \<open>n\<close>. If \<open>Close\<close> returns an error, the response is \<open>UnexpectedPauseError\<close>
  with that error's text and the error is logged through \<open>Logf\<close>; otherwise the
  response is the zero value. In both cases the override reference is nil afterwards.
\<close>

theorem Pause_closes_and_clears:
  assumes "network d = Some n" and "\<not> SocketExists e"
  shows "Pause d e =
           ((case Close e of
               None \<Rightarrow> PauseResponse PauseResponse_Unspecified []
             | Some err \<Rightarrow> PauseResponse PauseResponse_UnexpectedPauseError (Error err),
             None),
            d\<lparr>network := None\<rparr>,
            CloseCall n #
              (case Close e of None \<Rightarrow> [] | Some err \<Rightarrow> [Logf ''pause: %v'' [ErrArg err]]))"
  using assms by (simp add: Pause_def split: option.splits)

text \<open>A failing and a succeeding \<open>Close\<close>.\<close>

theorem Pause_closes_and_clears_witness:
  "network \<lparr>network = Some 7, dns = [], fallback = []\<rparr> = Some 7 \<and>
   \<not> SocketExists \<lparr>IsOkay = True, Close = Some (GoError False ''exit status 1''),
                    SocketExists = False, install = Inr 1\<rparr> \<and>
   Pause \<lparr>network = Some 7, dns = [], fallback = []\<rparr>
         \<lparr>IsOkay = True, Close = Some (GoError False ''exit status 1''),
          SocketExists = False, install = Inr 1\<rparr> =
     ((PauseResponse PauseResponse_UnexpectedPauseError ''exit status 1'', None),
      \<lparr>network = None, dns = [], fallback = []\<rparr>,
      [CloseCall 7, Logf ''pause: %v'' [ErrArg (GoError False ''exit status 1'')]]) \<and>
   Pause \<lparr>network = Some 7, dns = [], fallback = []\<rparr>
         \<lparr>IsOkay = True, Close = None, SocketExists = False, install = Inr 1\<rparr> =
     ((PauseResponse PauseResponse_Unspecified [], None),
      \<lparr>network = None, dns = [], fallback = []\<rparr>, [CloseCall 7])"
  using Pause_closes_and_clears [of "\<lparr>network = Some 7, dns = [], fallback = []\<rparr>" 7
      "\<lparr>IsOkay = True, Close = Some (GoError False ''exit status 1''),
        SocketExists = False, install = Inr 1\<rparr>"]
    Pause_closes_and_clears [of "\<lparr>network = Some 7, dns = [], fallback = []\<rparr>" 7
      "\<lparr>IsOkay = True, Close = None, SocketExists = False, install = Inr 1\<rparr>"]
  by simp

subsection \<open>Resume\<close>

text \<open>
  C4. \<open>Resume\<close> has three cases. A non-nil override that is okay gives \<open>NotPaused\<close>;
  a non-nil override that is not okay gives \<open>ReEstablishing\<close>, and the override is not
  replaced; with a nil override the installation is attempted, and when it fails the
  response is \<open>UnexpectedResumeError\<close> with the error's text, the error is logged, and
  the override reference is still nil. When the installation succeeds the new override
  is stored.
\<close>

theorem Resume_cases:
  "(network d \<noteq> None \<and> IsOkay e \<longrightarrow>
      Resume d e = ((ResumeResponse ResumeResponse_NotPaused [], None), d, [])) \<and>
   (network d \<noteq> None \<and> \<not> IsOkay e \<longrightarrow>
      Resume d e = ((ResumeResponse ResumeResponse_ReEstablishing [], None), d, [])) \<and>
   (network d = None \<longrightarrow>
      (\<forall>err. install e = Inl err \<longrightarrow>
         Resume d e =
           ((ResumeResponse ResumeResponse_UnexpectedResumeError (Error err), None), d,
            [Logf ''resume: %v'' [ErrArg err]]) \<and>
         network (fst (snd (Resume d e))) = None) \<and>
      (\<forall>r. install e = Inr r \<longrightarrow>
         Resume d e =
           ((ResumeResponse ResumeResponse_Unspecified [], None), d\<lparr>network := Some r\<rparr>, [])))"
  by (simp add: Resume_def makeNetOverride_def)

text \<open>One state for each case, and a successful installation.\<close>

theorem Resume_cases_witness:
  "Resume \<lparr>network = Some 7, dns = [], fallback = []\<rparr>
          \<lparr>IsOkay = True, Close = None, SocketExists = False, install = Inr 8\<rparr> =
     ((ResumeResponse ResumeResponse_NotPaused [], None),
      \<lparr>network = Some 7, dns = [], fallback = []\<rparr>, []) \<and>
   Resume \<lparr>network = Some 7, dns = [], fallback = []\<rparr>
          \<lparr>IsOkay = False, Close = None, SocketExists = False, install = Inr 8\<rparr> =
     ((ResumeResponse ResumeResponse_ReEstablishing [], None),
      \<lparr>network = Some 7, dns = [], fallback = []\<rparr>, []) \<and>
   Resume \<lparr>network = None, dns = [], fallback = []\<rparr>
          \<lparr>IsOkay = False, Close = None, SocketExists = False,
           install = Inl (GoError False ''launch failed'')\<rparr> =
     ((ResumeResponse ResumeResponse_UnexpectedResumeError ''launch failed'', None),
      \<lparr>network = None, dns = [], fallback = []\<rparr>,
      [Logf ''resume: %v'' [ErrArg (GoError False ''launch failed'')]]) \<and>
   Resume \<lparr>network = None, dns = [], fallback = []\<rparr>
          \<lparr>IsOkay = False, Close = None, SocketExists = False, install = Inr 8\<rparr> =
     ((ResumeResponse ResumeResponse_Unspecified [], None),
      \<lparr>network = Some 8, dns = [], fallback = []\<rparr>, [])"
  using Resume_cases [of "\<lparr>network = Some 7, dns = [], fallback = []\<rparr>"
      "\<lparr>IsOkay = True, Close = None, SocketExists = False, install = Inr 8\<rparr>"]
    Resume_cases [of "\<lparr>network = Some 7, dns = [], fallback = []\<rparr>"
      "\<lparr>IsOkay = False, Close = None, SocketExists = False, install = Inr 8\<rparr>"]
    Resume_cases [of "\<lparr>network = None, dns = [], fallback = []\<rparr>"
      "\<lparr>IsOkay = False, Close = None, SocketExists = False,
        install = Inl (GoError False ''launch failed'')\<rparr>"]
    Resume_cases [of "\<lparr>network = None, dns = [], fallback = []\<rparr>"
      "\<lparr>IsOkay = False, Close = None, SocketExists = False, install = Inr 8\<rparr>"]
  by simp

subsection \<open>Run\<close>

text \<open>
  C9. When the effective user id is not 0, \<open>Run\<close> returns the error "edgectl daemon
  must run as root" at once: no logging is set up, no worker is supervised, and the
  supervisor, under which alone the socket is bound, is never run.
\<close>

theorem Run_not_root:
  assumes "Geteuid e \<noteq> 0"
  shows "Run dns_arg fallback_arg e =
           (Some (GoError False ''edgectl daemon must run as root''), [])"
  using assms by (simp add: Run_def)

theorem Run_not_root_witness:
  "Geteuid \<lparr>Geteuid = 501, DisplayVersion = ''v1.0'', Getpid = 4242, runErrors = []\<rparr> \<noteq> 0 \<and>
   Run ''1.1.1.1'' ''8.8.8.8''
       \<lparr>Geteuid = 501, DisplayVersion = ''v1.0'', Getpid = 4242, runErrors = []\<rparr> =
     (Some (GoError False ''edgectl daemon must run as root''), [])"
  using Run_not_root [of "\<lparr>Geteuid = 501, DisplayVersion = ''v1.0'', Getpid = 4242, runErrors = []\<rparr>"
      "''1.1.1.1''" "''8.8.8.8''"]
  by simp

subsection \<open>Logger\<close>

text \<open>The messages received before anything else happens are logged in order.\<close>

lemma Logger_messages:
  "Logger ack (map Recv_ok msgs @ rest) =
     (case Logger ack rest of
        (out, acts) \<Rightarrow> (out, map (\<lambda>m. Printf (Text m) []) msgs @ acts))"
  by (induction msgs) (simp_all split: prod.splits)

text \<open>
  For every sequence of messages followed by a receive error, \<open>Logger\<close> makes one
  \<open>Printf\<close> call on the log sink per message, in arrival order, with the message
  text as the first argument and no operands. On \<open>io.EOF\<close> it then calls
  \<open>SendAndClose\<close> once and returns its result; on any other receive error it
  returns that error without acknowledging.
\<close>

lemma Logger_stream:
  "Logger ack (map Recv_ok msgs @ Recv_err err # rest) =
     (if err = io_EOF
      then (Returned ack, map (\<lambda>m. Printf (Text m) []) msgs @ [SendAndClose])
      else (Returned (Some err), map (\<lambda>m. Printf (Text m) []) msgs))"
  by (simp add: Logger_messages)

text \<open>
  C8. The logged line is to reach the log sink unchanged. On the stream that carries
  the one line "100%" and is then closed by the client, \<open>Logger\<close> ends cleanly, with
  one acknowledgement and no error, but the line goes to the sink as the format of
  a \<open>Printf\<close> call that has no operands. That is not the call that prints the line
  as it is, in which the line is the operand of the format "%s": a formatter takes
  the "%" at the end of "100%" for the start of a verb.
\<close>

theorem Logger_percent_line:
  "Logger None [Recv_ok (LogMessage ''100%''), Recv_err io_EOF] =
     (Returned None, [Printf ''100%'' [], SendAndClose]) \<and>
   snd (Logger None [Recv_ok (LogMessage ''100%''), Recv_err io_EOF]) \<noteq>
     [Printf ''%s'' [StrArg ''100%''], SendAndClose]"
  by simp

section \<open>Properties of the output pump\<close>

text \<open>Data turns go round the loop, each with one receive and one write.\<close>

lemma pump_loop_data:
  "pump_loop False (map data_turn rs @ ts) =
     (case pump_loop False ts of
        (out, acts) \<Rightarrow>
          (out, concat (map (\<lambda>r. [RecvCall, WriteCall (target r) (Data r)]) rs) @ acts))"
  by (induction rs) (simp_all add: data_turn_def split: prod.splits)

text \<open>
  In every run of the loop the writes made are, in order, the writes asked for by the
  frames received.
\<close>

lemma pump_loop_writes:
  "filter is_WriteCall (snd (pump_loop c ts)) =
     concat (map frame_writes (take (count_list (snd (pump_loop c ts)) RecvCall) ts))"
proof (induction ts arbitrary: c)
  case Nil
  then show ?case by simp
next
  case (Cons t ts)
  let ?c' = "cancel_during_Recv t \<or> cancel_during_Write t"
  obtain out acts where rest: "pump_loop ?c' ts = (out, acts)"
    by (cases "pump_loop ?c' ts")
  from Cons.IH [of ?c'] rest
  have ih: "filter is_WriteCall acts = concat (map frame_writes (take (count_list acts RecvCall) ts))"
    by simp
  show ?case
    using rest ih
    by (simp add: frame_writes_def [of t] target_def split: recv.splits option.splits)
qed

text \<open>
  C5 as written makes an end-of-stream a normal termination only when the context has
  been canceled, and has every other receive error reported. An end-of-stream with
  the context alive ends the pump with no error, and so does another receive error
  once the context is canceled.
\<close>

theorem pump_recv_error_counterexample:
  "fst (stdoutAndStderrPump
          [\<lparr>cancel_before = False, Recv = Recv_err io_EOF, cancel_during_Recv = False,
            Write = None, cancel_during_Write = False\<rparr>]) = Returned no_error \<and>
   fst (stdoutAndStderrPump
          [\<lparr>cancel_before = False, Recv = Recv_err (GoError False ''connection reset''),
            cancel_during_Recv = True, Write = None, cancel_during_Write = False\<rparr>])
     = Returned no_error"
  by (simp add: stdoutAndStderrPump_def)

text \<open>
  C5, amended. When a receive fails, after any number of data frames, the pump returns
  no error if the error is an end-of-stream (\<open>errors.Is(err, io.EOF)\<close>), whether or not
  the context is canceled, or if the context is found canceled right after the
  receive; otherwise it returns the error wrapped as "failed to read stdout/stderr
  stream: ...". The send half is closed in both cases.
\<close>

theorem pump_recv_error:
  assumes "\<not> cancel_before t" and "Recv t = Recv_err err"
  shows "stdoutAndStderrPump (map data_turn rs @ t # rest) =
           (Returned (if errors_Is_EOF err \<or> cancel_during_Recv t then no_error
                      else go_err (Errorf_w ''failed to read stdout/stderr stream: '' err)),
            concat (map (\<lambda>r. [RecvCall, WriteCall (target r) (Data r)]) rs)
              @ [RecvCall, CloseSend])"
  using assms by (simp add: stdoutAndStderrPump_def pump_loop_data)

theorem pump_recv_error_witness:
  "stdoutAndStderrPump
     [data_turn (Result [104, 105] 0),
      \<lparr>cancel_before = False, Recv = Recv_err (GoError False ''connection reset''),
       cancel_during_Recv = False, Write = None, cancel_during_Write = False\<rparr>] =
     (Returned (go_err (GoError False
        (''failed to read stdout/stderr stream: connection reset'' @ [CHR 0x0A]))),
      [RecvCall, WriteCall stdout [104, 105], RecvCall, CloseSend])"
  using pump_recv_error [of
      "\<lparr>cancel_before = False, Recv = Recv_err (GoError False ''connection reset''),
        cancel_during_Recv = False, Write = None, cancel_during_Write = False\<rparr>"
      "GoError False ''connection reset''" "[Result [104, 105] 0]" "[]"]
  by (simp add: Errorf_w_def target_def)

text \<open>
  C7. In every run, the write calls made are exactly those of the non-final frames
  with data among the frames received, in arrival order: to stdout when
  \<open>ErrorCategory\<close> is 0 and to stderr otherwise. When a final frame arrives after data
  frames \<open>rs\<close>, the pump returns the error derived from the frame's result if that
  result is present and not empty, and nil if the result is empty or absent, after one
  receive per frame up to the final one: whatever would follow (\<open>rest\<close>) is not
  received.
\<close>

theorem pump_frames:
  "filter is_WriteCall (snd (stdoutAndStderrPump ts)) =
     concat (map frame_writes (take (count_list (snd (stdoutAndStderrPump ts)) RecvCall) ts)) \<and>
   (\<not> cancel_before t \<and> Recv t = Recv_ok (StreamResult final_data True) \<longrightarrow>
      stdoutAndStderrPump (map data_turn rs @ t # rest) =
        (Returned (case final_data of
                     None \<Rightarrow> no_error
                   | Some r \<Rightarrow> if empty_result r then no_error else result_error r),
         concat (map (\<lambda>r. [RecvCall,
                            WriteCall (if ErrorCategory r = 0 then stdout else stderr) (Data r)]) rs)
           @ [RecvCall, CloseSend]))"
proof -
  obtain out acts where run: "pump_loop False ts = (out, acts)"
    by (cases "pump_loop False ts")
  from pump_loop_writes [of False ts] run
  have "filter is_WriteCall acts = concat (map frame_writes (take (count_list acts RecvCall) ts))"
    by simp
  with run have first: "filter is_WriteCall (snd (stdoutAndStderrPump ts)) =
      concat (map frame_writes (take (count_list (snd (stdoutAndStderrPump ts)) RecvCall) ts))"
    by (simp add: stdoutAndStderrPump_def)
  have second: "\<not> cancel_before t \<and> Recv t = Recv_ok (StreamResult final_data True) \<longrightarrow>
      stdoutAndStderrPump (map data_turn rs @ t # rest) =
        (Returned (case final_data of
                     None \<Rightarrow> no_error
                   | Some r \<Rightarrow> if empty_result r then no_error else result_error r),
         concat (map (\<lambda>r. [RecvCall,
                            WriteCall (if ErrorCategory r = 0 then stdout else stderr) (Data r)]) rs)
           @ [RecvCall, CloseSend])"
    by (simp add: stdoutAndStderrPump_def pump_loop_data target_def FromResult_def
             split: option.splits)
  from first second show ?thesis by blast
qed

text \<open>
  Two data frames and a final frame with an empty result, all bytes going to stdout;
  data for both writers and a final frame without result; and a final frame with a
  result that is not empty, followed by a frame that is never read.
\<close>

theorem pump_frames_witness:
  "stdoutAndStderrPump
     [data_turn (Result [104, 105] 0), data_turn (Result [10] 0),
      \<lparr>cancel_before = False, Recv = Recv_ok (StreamResult (Some (Result [] 0)) True),
       cancel_during_Recv = False, Write = None, cancel_during_Write = False\<rparr>] =
     (Returned no_error,
      [RecvCall, WriteCall stdout [104, 105], RecvCall, WriteCall stdout [10],
       RecvCall, CloseSend]) \<and>
   stdoutAndStderrPump
     [data_turn (Result [104, 105] 0), data_turn (Result [33] 2),
      \<lparr>cancel_before = False, Recv = Recv_ok (StreamResult None True),
       cancel_during_Recv = False, Write = None, cancel_during_Write = False\<rparr>] =
     (Returned no_error,
      [RecvCall, WriteCall stdout [104, 105], RecvCall, WriteCall stderr [33],
       RecvCall, CloseSend]) \<and>
   stdoutAndStderrPump
     [\<lparr>cancel_before = False, Recv = Recv_ok (StreamResult (Some (Result [98, 97, 100] 3)) True),
       cancel_during_Recv = False, Write = None, cancel_during_Write = False\<rparr>,
      data_turn (Result [104, 105] 0)] =
     (Returned (result_error (Result [98, 97, 100] 3)), [RecvCall, CloseSend])"
  using pump_frames [where t = "\<lparr>cancel_before = False,
          Recv = Recv_ok (StreamResult (Some (Result [] 0)) True),
          cancel_during_Recv = False, Write = None, cancel_during_Write = False\<rparr>"
        and final_data = "Some (Result [] 0)"
        and rs = "[Result [104, 105] 0, Result [10] 0]" and rest = "[]" and ts = "[]"]
    pump_frames [where t = "\<lparr>cancel_before = False, Recv = Recv_ok (StreamResult None True),
          cancel_during_Recv = False, Write = None, cancel_during_Write = False\<rparr>"
        and final_data = None
        and rs = "[Result [104, 105] 0, Result [33] 2]" and rest = "[]" and ts = "[]"]
    pump_frames [where t = "\<lparr>cancel_before = False,
          Recv = Recv_ok (StreamResult (Some (Result [98, 97, 100] 3)) True),
          cancel_during_Recv = False, Write = None, cancel_during_Write = False\<rparr>"
        and final_data = "Some (Result [98, 97, 100] 3)"
        and rs = "[]" and rest = "[data_turn (Result [104, 105] 0)]" and ts = "[]"]
  by (simp add: empty_result_def)

section \<open>Properties of the cancellation pump\<close>



end
